theory Spec2Isabelle
  imports Main "HOL-Library.Sublist"
begin

section \<open>The demo web server of \<open>apps/src/index.ts\<close>\<close>

text \<open>
  The program is one Express application with two routes. At module load it calls
  \<open>dotenv.config\<close> on \<open>config/.env\<close>; the handler of \<open>/\<close> reads seven
  properties of \<open>process.env\<close>, puts them into an object and sends an HTML page that
  embeds \<open>JSON.stringify(envVars, null, 2)\<close>; the handler of \<open>/health\<close> sends a JSON
  object with a status and a timestamp.

  JavaScript strings are modelled as \<^typ>\<open>string\<close>. A character outside ASCII stands
  for the bytes of its UTF-8 encoding, which is also how the page leaves the server; the
  characters that \<open>JSON.stringify\<close> treats specially are all ASCII, so the escaping below
  is the same on both readings. A lone surrogate has no such encoding and is not a value
  that \<open>process.env\<close> can hold after the runtime has decoded the environment.
\<close>

subsection \<open>\<open>process.env\<close> and the \<open>||\<close> default\<close>

type_synonym env = "string \<rightharpoonup> string"

text \<open>
  \<open>process.env.X || d\<close>: the property is \<open>undefined\<close> when the variable is unset and a
  string otherwise; \<open>undefined\<close> and the empty string are the falsy ones.
\<close>

definition or_default :: "string option \<Rightarrow> string \<Rightarrow> string" where
  "or_default x d = (case x of None \<Rightarrow> d | Some v \<Rightarrow> if v = [] then d else v)"

definition NOT_SET :: string where
  "NOT_SET = ''NOT SET''"

text \<open>The property names of \<open>envVars\<close>, in the order of the object literal.\<close>

definition var_names :: "string list" where
  "var_names =
    [''DATABASE_URL'', ''CACHE_SIZE'', ''PAYMENT_GATEWAY_URL'', ''MAX_CART_ITEMS'',
     ''SESSION_TIMEOUT'', ''DB_USERNAME'', ''DB_PASSWORD'']"

text \<open>The object literal \<open>envVars\<close> of the handler, as its list of properties.\<close>

definition envVars :: "env \<Rightarrow> (string \<times> string) list" where
  "envVars e =
    [(''DATABASE_URL'', or_default (e ''DATABASE_URL'') NOT_SET),
     (''CACHE_SIZE'', or_default (e ''CACHE_SIZE'') NOT_SET),
     (''PAYMENT_GATEWAY_URL'', or_default (e ''PAYMENT_GATEWAY_URL'') NOT_SET),
     (''MAX_CART_ITEMS'', or_default (e ''MAX_CART_ITEMS'') NOT_SET),
     (''SESSION_TIMEOUT'', or_default (e ''SESSION_TIMEOUT'') NOT_SET),
     (''DB_USERNAME'', or_default (e ''DB_USERNAME'') NOT_SET),
     (''DB_PASSWORD'', or_default (e ''DB_PASSWORD'') NOT_SET)]"

subsection \<open>\<open>JSON.stringify\<close> on an object of strings\<close>

definition dq :: char where
  "dq = CHR 0x22"

definition bs :: char where
  "bs = CHR 0x5C"

definition nl :: char where
  "nl = CHR 0x0A"

definition hex_digit :: "nat \<Rightarrow> char" where
  "hex_digit n = ''0123456789abcdef'' ! (n mod 16)"

text \<open>\<open>\uXXXX\<close> for a code unit below \<open>0x20\<close>: four lower-case hexadecimal digits.\<close>

definition UnicodeEscape :: "char \<Rightarrow> string" where
  "UnicodeEscape c =
    [bs, CHR ''u'', CHR ''0'', CHR ''0'',
     hex_digit ((of_char c :: nat) div 16), hex_digit ((of_char c :: nat) mod 16)]"

text \<open>
  One step of \<open>QuoteJSONString\<close>: the seven characters with a short escape, the other
  control characters as \<open>\u00XX\<close>, every other character as itself.
\<close>

definition escape_char :: "char \<Rightarrow> string" where
  "escape_char c =
    (if c = CHR 0x08 then [bs, CHR ''b'']
     else if c = CHR 0x09 then [bs, CHR ''t'']
     else if c = CHR 0x0A then [bs, CHR ''n'']
     else if c = CHR 0x0C then [bs, CHR ''f'']
     else if c = CHR 0x0D then [bs, CHR ''r'']
     else if c = dq then [bs, dq]
     else if c = bs then [bs, bs]
     else if (of_char c :: nat) < 0x20 then UnicodeEscape c
     else [c])"

definition QuoteJSONString :: "string \<Rightarrow> string" where
  "QuoteJSONString s = dq # concat (map escape_char s) @ [dq]"

fun join :: "string \<Rightarrow> string list \<Rightarrow> string" where
  "join sep [] = []"
| "join sep [x] = x"
| "join sep (x # y # ys) = x @ sep @ join sep (y # ys)"

text \<open>One property with indentation 2: two spaces, the quoted key, a colon and a space.\<close>

definition property_indent2 :: "string \<times> string \<Rightarrow> string" where
  "property_indent2 p = ''  '' @ QuoteJSONString (fst p) @ '': '' @ QuoteJSONString (snd p)"

text \<open>\<open>JSON.stringify(obj, null, 2)\<close>.\<close>

definition JSON_stringify_indent2 :: "(string \<times> string) list \<Rightarrow> string" where
  "JSON_stringify_indent2 obj =
    (if obj = [] then ''{}''
     else ''{'' @ [nl] @ join ('','' @ [nl]) (map property_indent2 obj) @ [nl] @ ''}'')"

definition property_compact :: "string \<times> string \<Rightarrow> string" where
  "property_compact p = QuoteJSONString (fst p) @ '':'' @ QuoteJSONString (snd p)"

text \<open>\<open>JSON.stringify(obj)\<close>, which is what \<open>res.json\<close> sends.\<close>

definition JSON_stringify :: "(string \<times> string) list \<Rightarrow> string" where
  "JSON_stringify obj = ''{'' @ join '','' (map property_compact obj) @ ''}''"

subsection \<open>The page of \<open>/\<close>\<close>

text \<open>The rocket of the heading, U+1F680, in UTF-8.\<close>

definition rocket :: string where
  "rocket = [CHR 0xF0, CHR 0x9F, CHR 0x9A, CHR 0x80]"

text \<open>The template literal up to the interpolation, line by line.\<close>

definition page_head :: string where
  "page_head =
    [nl] @
    ''    <html>'' @ [nl] @
    ''      <head><style>'' @ [nl] @
    ''        body { font-family: monospace; background: #1a1a2e; color: #eee; padding: 2rem; }'' @ [nl] @
    ''        h1 { color: #00d4ff; }'' @ [nl] @
    ''        pre { background: #16213e; padding: 1rem; border-radius: 8px; font-size: 1rem; }'' @ [nl] @
    ''        .label { color: #f39c12; }'' @ [nl] @
    ''        .value { color: #2ecc71; }'' @ [nl] @
    ''      </style></head>'' @ [nl] @
    ''      <body>'' @ [nl] @
    ''        <h1>'' @ rocket @ '' K8s Demo App</h1>'' @ [nl] @
    ''        <h2>Environment Variables (from ConfigMap + Secrets)</h2>'' @ [nl] @
    ''        <pre>''"

text \<open>The template literal after the interpolation.\<close>

definition page_tail :: string where
  "page_tail =
    ''</pre>'' @ [nl] @
    ''      </body>'' @ [nl] @
    ''    </html>'' @ [nl] @
    ''  ''"

definition page :: "env \<Rightarrow> string" where
  "page e = page_head @ JSON_stringify_indent2 (envVars e) @ page_tail"

subsection \<open>Requests, responses and the running process\<close>

text \<open>
  What a handler does with \<open>res\<close>: \<open>res.send\<close> of a string, or \<open>res.json\<close> of an
  object. \<open>body\<close> is the string the handler hands to the framework in that call. It is
  the body of the answer whenever the framework answers with status 200; what the
  framework makes of the request's own headers (a conditional request whose validator
  still matches is answered with 304 and no body, whatever the handler sent) is not code
  of the program and not part of the model.
\<close>

datatype response = Send string | Json "(string \<times> string) list"

fun body :: "response \<Rightarrow> string" where
  "body (Send s) = s"
| "body (Json obj) = JSON_stringify obj"

text \<open>
  The route a request is dispatched to. A request that matches neither route runs no
  handler of the program; the framework answers it.
\<close>

datatype request = GET_root | GET_health | Unmatched

definition get_root :: "env \<Rightarrow> response" where
  "get_root e = Send (page e)"

text \<open>
  The handler of \<open>/health\<close>. Its second property is \<open>new Date().toISOString()\<close>; the
  reading of the clock, already formatted, is an input.
\<close>

definition get_health :: "string \<Rightarrow> response" where
  "get_health now = Json [(''status'', ''ok''), (''timestamp'', now)]"

text \<open>
  The process and the one thing outside it that the program reads: the file
  \<open>config/.env\<close>, absent or parsed into its assignments.
\<close>

record world =
  config_file :: "env option"
  process_env :: env

text \<open>
  \<open>dotenv.config\<close> with only a path: a variable that the process already has keeps its
  value, every other assignment of the file is added; an unreadable file changes nothing.
\<close>

definition dotenv_config :: "env option \<Rightarrow> env \<Rightarrow> env" where
  "dotenv_config file e =
    (case file of
       None \<Rightarrow> e
     | Some parsed \<Rightarrow> (\<lambda>k. case e k of Some v \<Rightarrow> Some v | None \<Rightarrow> parsed k))"

text \<open>Module load: the process is started with an environment and loads the file once.\<close>

definition startup :: "env option \<Rightarrow> env \<Rightarrow> world" where
  "startup file e = \<lparr>config_file = file, process_env = dotenv_config file e\<rparr>"

text \<open>
  What happens while the server listens: a request arrives (with the clock's reading at
  that moment), or somebody rewrites the file on disk.
\<close>

datatype event = Request request string | FileWritten "env option"

fun step :: "world \<Rightarrow> event \<Rightarrow> world \<times> response option" where
  "step w (Request GET_root now) = (w, Some (get_root (process_env w)))"
| "step w (Request GET_health now) = (w, Some (get_health now))"
| "step w (Request Unmatched now) = (w, None)"
| "step w (FileWritten f) = (w\<lparr>config_file := f\<rparr>, None)"

fun run :: "world \<Rightarrow> event list \<Rightarrow> response option list" where
  "run w [] = []"
| "run w (ev # evs) = snd (step w ev) # run (fst (step w ev)) evs"

text \<open>
  A value that \<open>QuoteJSONString\<close> copies unchanged: no double quote, no backslash and
  no control character.
\<close>

definition plain :: "string \<Rightarrow> bool" where
  "plain v = list_all (\<lambda>c. c \<noteq> dq \<and> c \<noteq> bs \<and> \<not> (of_char c :: nat) < 0x20) v"

section \<open>Properties\<close>

subsection \<open>The environment of the process does not change while it serves\<close>

lemma step_keeps_env: "process_env (fst (step w ev)) = process_env w"
proof (cases ev)
  case (Request r now)
  then show ?thesis by (cases r) simp_all
next
  case (FileWritten f)
  then show ?thesis by simp
qed

lemma run_root:
  "i < length evs \<Longrightarrow> evs ! i = Request GET_root now \<Longrightarrow>
   run w evs ! i = Some (Send (page (process_env w)))"
proof (induction evs arbitrary: w i)
  case Nil
  then show ?case by simp
next
  case (Cons ev evs)
  show ?case
  proof (cases i)
    case 0
    with Cons.prems show ?thesis by (simp add: get_root_def)
  next
    case (Suc j)
    with Cons.prems have "j < length evs" and "evs ! j = Request GET_root now"
      by simp_all
    then have "run (fst (step w ev)) evs ! j = Some (Send (page (process_env (fst (step w ev)))))"
      by (rule Cons.IH)
    with Suc show ?thesis by (simp add: step_keeps_env)
  qed
qed

text \<open>
  C1. The values on the page are those the process had once it was started: in every
  run of the server, whatever requests came before and however the file
  \<open>config/.env\<close> has been rewritten since, the answer to a request for \<open>/\<close> is the page
  of the environment as \<open>dotenv.config\<close> left it at module load. The handler does read
  \<open>process.env\<close> on each request; nothing in the program writes to it after start.
\<close>

theorem root_renders_startup_env:
  "i < length evs \<Longrightarrow> evs ! i = Request GET_root now \<Longrightarrow>
   run (startup file e) evs ! i = Some (Send (page (dotenv_config file e)))"
proof -
  assume "i < length evs" and "evs ! i = Request GET_root now"
  then have "run (startup file e) evs ! i = Some (Send (page (process_env (startup file e))))"
    by (rule run_root)
  then show ?thesis by (simp add: startup_def)
qed

text \<open>
  A run in which the file is rewritten between two requests: the second page is still the
  one of the start.
\<close>

theorem root_renders_startup_env_witness:
  "(2::nat) < length [Request GET_root ''t1'', FileWritten (Some [''CACHE_SIZE'' \<mapsto> ''9'']),
                      Request GET_root ''t2'']
   \<and> [Request GET_root ''t1'', FileWritten (Some [''CACHE_SIZE'' \<mapsto> ''9'']),
       Request GET_root ''t2''] ! 2 = Request GET_root ''t2''
   \<and> run (startup (Some [''CACHE_SIZE'' \<mapsto> ''5'']) [''DB_USERNAME'' \<mapsto> ''admin''])
        [Request GET_root ''t1'', FileWritten (Some [''CACHE_SIZE'' \<mapsto> ''9'']),
         Request GET_root ''t2''] ! 2
      = Some (Send (page (dotenv_config (Some [''CACHE_SIZE'' \<mapsto> ''5''])
                            [''DB_USERNAME'' \<mapsto> ''admin''])))"
  using root_renders_startup_env
    [of 2 "[Request GET_root ''t1'', FileWritten (Some [''CACHE_SIZE'' \<mapsto> ''9'']),
            Request GET_root ''t2'']" "''t2''"
        "Some [''CACHE_SIZE'' \<mapsto> ''5'']" "[''DB_USERNAME'' \<mapsto> ''admin'']"]
  by simp

subsection \<open>What the page contains\<close>

lemma escape_char_plain:
  "c \<noteq> dq \<Longrightarrow> c \<noteq> bs \<Longrightarrow> \<not> (of_char c :: nat) < 0x20 \<Longrightarrow> escape_char c = [c]"
  by (auto simp: escape_char_def)

lemma concat_escape_plain: "plain v \<Longrightarrow> concat (map escape_char v) = v"
  by (induction v) (simp_all add: plain_def escape_char_plain)

lemma Quote_plain: "plain v \<Longrightarrow> QuoteJSONString v = dq # v @ [dq]"
  by (simp add: QuoteJSONString_def concat_escape_plain)

lemma sublist_inside: "sublist x y \<Longrightarrow> sublist x (a @ y @ b)"
proof -
  assume "sublist x y"
  then obtain ps ss where "y = ps @ x @ ss" by (auto simp: sublist_def)
  then have "a @ y @ b = (a @ ps) @ x @ (ss @ b)" by simp
  then show ?thesis unfolding sublist_def by blast
qed

lemma sublist_join: "x \<in> set xs \<Longrightarrow> sublist x (join sep xs)"
proof (induction sep xs rule: join.induct)
  case (1 sep)
  then show ?case by simp
next
  case (2 sep y)
  then show ?case by simp
next
  case (3 sep y z zs)
  show ?case
  proof (cases "x = y")
    case True
    then show ?thesis by simp
  next
    case False
    with 3 have "sublist x (join sep (z # zs))" by simp
    then have "sublist x ((y @ sep) @ join sep (z # zs) @ [])" by (rule sublist_inside)
    then show ?thesis by simp
  qed
qed

lemma envVars_nonempty: "envVars e \<noteq> []"
  by (simp add: envVars_def)

lemma page_contains_property:
  assumes "p \<in> set (envVars e)"
  shows "sublist (property_indent2 p) (page e)"
proof -
  from assms have "property_indent2 p \<in> set (map property_indent2 (envVars e))" by simp
  then have "sublist (property_indent2 p) (join ('','' @ [nl]) (map property_indent2 (envVars e)))"
    by (rule sublist_join)
  then have "sublist (property_indent2 p)
      ((page_head @ ''{'' @ [nl]) @ join ('','' @ [nl]) (map property_indent2 (envVars e))
        @ ([nl] @ ''}'' @ page_tail))"
    by (rule sublist_inside)
  then show ?thesis by (simp add: page_def JSON_stringify_indent2_def envVars_nonempty)
qed

lemma envVars_member:
  "k \<in> set var_names \<Longrightarrow> (k, or_default (e k) NOT_SET) \<in> set (envVars e)"
  by (auto simp: var_names_def envVars_def)

lemma envVars_cong:
  "\<forall>k\<in>set var_names. e1 k = e2 k \<Longrightarrow> envVars e1 = envVars e2"
  by (simp add: var_names_def envVars_def)

text \<open>The line of the page for one of the seven variables.\<close>

lemma page_shows_variable:
  assumes "k \<in> set var_names"
  shows "sublist (''  '' @ QuoteJSONString k @ '': '' @ QuoteJSONString (or_default (e k) NOT_SET))
           (page e)"
  using page_contains_property [OF envVars_member [OF assms]]
  by (simp add: property_indent2_def)

text \<open>
  C2, as stated, fails: a database URL whose password has a double quote is set, and the
  page does not contain it, because \<open>JSON.stringify\<close> writes the quote as \<open>\"\<close>.
\<close>

theorem root_body_value_counterexample:
  "[''DATABASE_URL'' \<mapsto> ''postgres://u:p'' @ [dq] @ ''w@db/shop''] ''DATABASE_URL''
     = Some (''postgres://u:p'' @ [dq] @ ''w@db/shop'')
   \<and> \<not> sublist (''postgres://u:p'' @ [dq] @ ''w@db/shop'')
         (body (get_root [''DATABASE_URL'' \<mapsto> ''postgres://u:p'' @ [dq] @ ''w@db/shop'']))"
  by code_simp

text \<open>
  C2, amended. The statement is about the page that the handler of \<open>/\<close> hands to
  \<open>res.send\<close>, which is the body of every answer with status 200. For each of the
  seven variables that is set, that page has a line with its name and the JSON string of
  its current value when that value is not empty, and with \<open>NOT SET\<close> when it is
  empty; the value itself stands in the page unchanged when it has no double quote,
  backslash or control character. An answer without a body (304 to a conditional
  request) is outside the statement.
\<close>

theorem root_body_shows_values:
  assumes "k \<in> set var_names" and "e k = Some v"
  shows "(v \<noteq> [] \<longrightarrow>
            sublist (''  '' @ QuoteJSONString k @ '': '' @ QuoteJSONString v) (body (get_root e)))
       \<and> (v = [] \<longrightarrow>
            sublist (''  '' @ QuoteJSONString k @ '': '' @ QuoteJSONString ''NOT SET'')
              (body (get_root e)))
       \<and> (plain v \<longrightarrow> sublist v (body (get_root e)))"
proof -
  have shown: "sublist (''  '' @ QuoteJSONString k @ '': '' @ QuoteJSONString (or_default (e k) NOT_SET))
                 (body (get_root e))"
    using page_shows_variable [OF assms(1)] by (simp add: get_root_def)
  have a: "v \<noteq> [] \<longrightarrow>
      sublist (''  '' @ QuoteJSONString k @ '': '' @ QuoteJSONString v) (body (get_root e))"
  proof
    assume "v \<noteq> []"
    with assms(2) have "or_default (e k) NOT_SET = v" by (simp add: or_default_def)
    with shown
    show "sublist (''  '' @ QuoteJSONString k @ '': '' @ QuoteJSONString v) (body (get_root e))"
      by simp
  qed
  have b: "v = [] \<longrightarrow>
      sublist (''  '' @ QuoteJSONString k @ '': '' @ QuoteJSONString ''NOT SET'') (body (get_root e))"
  proof
    assume "v = []"
    with assms(2) have "or_default (e k) NOT_SET = ''NOT SET''"
      by (simp add: or_default_def NOT_SET_def)
    with shown
    show "sublist (''  '' @ QuoteJSONString k @ '': '' @ QuoteJSONString ''NOT SET'')
            (body (get_root e))"
      by simp
  qed
  have c: "plain v \<longrightarrow> sublist v (body (get_root e))"
  proof (cases "v = []")
    case True
    then show ?thesis by simp
  next
    case False
    show ?thesis
    proof
      assume pl: "plain v"
      have "sublist v ((''  '' @ QuoteJSONString k @ '': '' @ [dq]) @ v @ [dq])"
        by (rule sublist_inside) simp
      then have "sublist v (''  '' @ QuoteJSONString k @ '': '' @ QuoteJSONString v)"
        using pl by (simp add: Quote_plain)
      moreover from a False
      have "sublist (''  '' @ QuoteJSONString k @ '': '' @ QuoteJSONString v) (body (get_root e))"
        by simp
      ultimately show "sublist v (body (get_root e))"
        by (rule sublist_order.order_trans)
    qed
  qed
  from a b c show ?thesis by blast
qed

text \<open>A cache size of \<open>1000\<close>: set, not empty and free of escaped characters.\<close>

theorem root_body_shows_values_witness:
  "''CACHE_SIZE'' \<in> set var_names
   \<and> [''CACHE_SIZE'' \<mapsto> ''1000''] ''CACHE_SIZE'' = Some ''1000''
   \<and> ''1000'' \<noteq> [] \<and> plain ''1000''
   \<and> sublist (''  '' @ QuoteJSONString ''CACHE_SIZE'' @ '': '' @ QuoteJSONString ''1000'')
        (body (get_root [''CACHE_SIZE'' \<mapsto> ''1000'']))
   \<and> sublist ''1000'' (body (get_root [''CACHE_SIZE'' \<mapsto> ''1000'']))"
  using root_body_shows_values [of "''CACHE_SIZE''" "[''CACHE_SIZE'' \<mapsto> ''1000'']" "''1000''"]
  by (simp add: var_names_def plain_def dq_def bs_def)

lemma var_names_plain: "k \<in> set var_names \<Longrightarrow> plain k"
  by (auto simp: var_names_def plain_def dq_def bs_def)

lemma NOT_SET_plain: "plain NOT_SET"
  by (simp add: NOT_SET_def plain_def dq_def bs_def)

lemma page_shows_name:
  assumes "k \<in> set var_names"
  shows "sublist ([dq] @ k @ [dq] @ '': '') (page e)"
proof -
  have "sublist ([dq] @ k @ [dq] @ '': '')
          (''  '' @ ([dq] @ k @ [dq] @ '': '') @ QuoteJSONString (or_default (e k) NOT_SET))"
    by (rule sublist_inside) simp
  then have "sublist ([dq] @ k @ [dq] @ '': '')
          (''  '' @ QuoteJSONString k @ '': '' @ QuoteJSONString (or_default (e k) NOT_SET))"
    by (simp add: Quote_plain [OF var_names_plain [OF assms]])
  then show ?thesis
    using page_shows_variable [OF assms] by (rule sublist_order.order_trans)
qed

lemma page_shows_NOT_SET:
  assumes "k \<in> set var_names" and "e k = None"
  shows "sublist ([dq] @ k @ [dq] @ '': '' @ [dq] @ ''NOT SET'' @ [dq]) (page e)"
proof -
  have "or_default (e k) NOT_SET = NOT_SET"
    using assms(2) by (simp add: or_default_def)
  then have "sublist (''  '' @ QuoteJSONString k @ '': '' @ QuoteJSONString NOT_SET) (page e)"
    using page_shows_variable [OF assms(1), of e] by simp
  then have long: "sublist (''  '' @ ([dq] @ k @ [dq] @ '': '' @ [dq] @ ''NOT SET'' @ [dq]) @ []) (page e)"
    using Quote_plain [OF var_names_plain [OF assms(1)]] Quote_plain [OF NOT_SET_plain]
    by (simp add: NOT_SET_def)
  have "sublist ([dq] @ k @ [dq] @ '': '' @ [dq] @ ''NOT SET'' @ [dq])
         (''  '' @ ([dq] @ k @ [dq] @ '': '' @ [dq] @ ''NOT SET'' @ [dq]) @ [])"
    by (rule sublist_inside) simp
  then show ?thesis using long by (rule sublist_order.order_trans)
qed

text \<open>
  C8. The handler of \<open>/\<close> answers in every environment: it sends a page, the object it
  renders has all seven names in the order of the source, each name stands in the page,
  and a variable that is unset is shown as \<open>"NOT SET"\<close>. The model has no failing branch
  because the handler has none: it reads properties, builds strings and calls
  \<open>res.send\<close>.
\<close>

theorem root_total_not_set:
  "snd (step w (Request GET_root now)) = Some (Send (page (process_env w)))
   \<and> map fst (envVars (process_env w)) = var_names
   \<and> (\<forall>k\<in>set var_names. sublist ([dq] @ k @ [dq] @ '': '') (page (process_env w)))
   \<and> (\<forall>k\<in>set var_names. process_env w k = None \<longrightarrow>
         sublist ([dq] @ k @ [dq] @ '': '' @ [dq] @ ''NOT SET'' @ [dq]) (page (process_env w)))"
proof -
  have "snd (step w (Request GET_root now)) = Some (Send (page (process_env w)))"
    by (simp add: get_root_def)
  moreover have "map fst (envVars (process_env w)) = var_names"
    by (simp add: envVars_def var_names_def)
  moreover have "\<forall>k\<in>set var_names. sublist ([dq] @ k @ [dq] @ '': '') (page (process_env w))"
    using page_shows_name by blast
  moreover have "\<forall>k\<in>set var_names. process_env w k = None \<longrightarrow>
         sublist ([dq] @ k @ [dq] @ '': '' @ [dq] @ ''NOT SET'' @ [dq]) (page (process_env w))"
    using page_shows_NOT_SET by blast
  ultimately show ?thesis by blast
qed

text \<open>An environment with one variable set and the other six unset.\<close>

theorem root_total_not_set_witness:
  "''DB_PASSWORD'' \<in> set var_names
   \<and> process_env \<lparr>config_file = None, process_env = [''CACHE_SIZE'' \<mapsto> ''1000'']\<rparr> ''DB_PASSWORD'' = None
   \<and> sublist ([dq] @ ''DB_PASSWORD'' @ [dq] @ '': '' @ [dq] @ ''NOT SET'' @ [dq])
        (page (process_env \<lparr>config_file = None, process_env = [''CACHE_SIZE'' \<mapsto> ''1000'']\<rparr>))
   \<and> sublist ([dq] @ ''CACHE_SIZE'' @ [dq] @ '': '')
        (page (process_env \<lparr>config_file = None, process_env = [''CACHE_SIZE'' \<mapsto> ''1000'']\<rparr>))"
  using root_total_not_set [of "\<lparr>config_file = None, process_env = [''CACHE_SIZE'' \<mapsto> ''1000'']\<rparr>" "''t''"]
  by (simp add: var_names_def)

subsection \<open>The health route\<close>

text \<open>
  C9. The handler of \<open>/health\<close> sends a JSON object whose \<open>status\<close> is \<open>ok\<close>, and the
  body starts with that property; the answer is the same in every state of the process
  (environment and file), and the state is left as it was.
\<close>

theorem health_always_ok:
  "(\<exists>obj. snd (step w (Request GET_health now)) = Some (Json obj)
          \<and> map_of obj ''status'' = Some ''ok''
          \<and> prefix (''{'' @ [dq] @ ''status'' @ [dq] @ '':'' @ [dq] @ ''ok'' @ [dq]) (body (Json obj)))
   \<and> snd (step w (Request GET_health now)) = snd (step w' (Request GET_health now))
   \<and> fst (step w (Request GET_health now)) = w"
proof -
  have "QuoteJSONString ''status'' = dq # ''status'' @ [dq]"
    by (rule Quote_plain) (simp add: plain_def dq_def bs_def)
  moreover have "QuoteJSONString ''ok'' = dq # ''ok'' @ [dq]"
    by (rule Quote_plain) (simp add: plain_def dq_def bs_def)
  ultimately have "prefix (''{'' @ [dq] @ ''status'' @ [dq] @ '':'' @ [dq] @ ''ok'' @ [dq])
      (body (Json [(''status'', ''ok''), (''timestamp'', now)]))"
    by (simp add: JSON_stringify_def property_compact_def)
  then show ?thesis by (simp add: get_health_def)
qed

subsection \<open>What the page depends on\<close>

text \<open>
  C10, as stated, fails in its last part: a password with a backslash is set, and the
  page does not contain it as it is, because \<open>JSON.stringify\<close> doubles the backslash.
\<close>

theorem secret_verbatim_counterexample:
  "[''DB_PASSWORD'' \<mapsto> [CHR ''p'', CHR ''a'', bs, CHR ''s'', CHR ''s'']] ''DB_PASSWORD''
     = Some [CHR ''p'', CHR ''a'', bs, CHR ''s'', CHR ''s'']
   \<and> \<not> sublist [CHR ''p'', CHR ''a'', bs, CHR ''s'', CHR ''s'']
         (body (get_root [''DB_PASSWORD'' \<mapsto> [CHR ''p'', CHR ''a'', bs, CHR ''s'', CHR ''s'']]))"
  by code_simp

text \<open>
  C10, amended. The statement is about the page that the handler of \<open>/\<close> hands to
  \<open>res.send\<close>, which is the body of every answer with status 200. In two states of
  the process whose environments agree on the seven variables the handler sends the same
  page, whatever else differs among the things the handler can read (other variables,
  the file, the clock). The two credentials, when set and not empty, stand in that page
  as JSON strings: unchanged when they have no double quote, backslash or control
  character, escaped otherwise. Whether the framework serves the page or answers a
  conditional request with 304 and no body depends on the request's headers and is
  outside the statement.
\<close>

theorem root_body_depends_on_seven:
  assumes "\<forall>k\<in>set var_names. process_env w1 k = process_env w2 k"
  shows "snd (step w1 (Request GET_root t1)) = Some (Send (page (process_env w1)))
       \<and> snd (step w2 (Request GET_root t2)) = Some (Send (page (process_env w1)))
       \<and> (\<forall>k\<in>{''DB_USERNAME'', ''DB_PASSWORD''}. \<forall>v. process_env w1 k = Some v \<and> v \<noteq> [] \<longrightarrow>
             sublist (QuoteJSONString v) (page (process_env w1))
             \<and> (plain v \<longrightarrow> sublist v (page (process_env w1))))"
proof -
  from assms have "envVars (process_env w1) = envVars (process_env w2)"
    by (rule envVars_cong)
  then have same: "page (process_env w2) = page (process_env w1)"
    by (simp add: page_def)
  have secret: "sublist (QuoteJSONString v) (page (process_env w1))
       \<and> (plain v \<longrightarrow> sublist v (page (process_env w1)))"
    if k: "k \<in> {''DB_USERNAME'', ''DB_PASSWORD''}" and v: "process_env w1 k = Some v" "v \<noteq> []"
    for k v
  proof -
    from k have "k \<in> set var_names" by (auto simp: var_names_def)
    then have "sublist (''  '' @ QuoteJSONString k @ '': '' @ QuoteJSONString (or_default (process_env w1 k) NOT_SET))
        (page (process_env w1))"
      by (rule page_shows_variable)
    with v have line: "sublist ((''  '' @ QuoteJSONString k @ '': '') @ QuoteJSONString v @ [])
        (page (process_env w1))"
      by (simp add: or_default_def)
    have "sublist (QuoteJSONString v) ((''  '' @ QuoteJSONString k @ '': '') @ QuoteJSONString v @ [])"
      by (rule sublist_inside) simp
    then have quoted: "sublist (QuoteJSONString v) (page (process_env w1))"
      using line by (rule sublist_order.order_trans)
    have "sublist v (page (process_env w1))" if "plain v"
    proof -
      have "sublist v ([dq] @ v @ [dq])" by (rule sublist_inside) simp
      with that have "sublist v (QuoteJSONString v)" by (simp add: Quote_plain)
      then show ?thesis using quoted by (rule sublist_order.order_trans)
    qed
    with quoted show ?thesis by blast
  qed
  have "snd (step w1 (Request GET_root t1)) = Some (Send (page (process_env w1)))"
    by (simp add: get_root_def)
  moreover have "snd (step w2 (Request GET_root t2)) = Some (Send (page (process_env w1)))"
    by (simp add: get_root_def same)
  ultimately show ?thesis using secret by blast
qed

text \<open>
  Two states that differ in the file, in the clock and in a variable outside the seven.
\<close>

theorem root_body_depends_on_seven_witness:
  "map (process_env \<lparr>config_file = None, process_env = [''DB_USERNAME'' \<mapsto> ''admin'']\<rparr>)
       var_names
     = map (process_env \<lparr>config_file = Some Map.empty,
                          process_env = [''DB_USERNAME'' \<mapsto> ''admin'', ''HOME'' \<mapsto> ''/root'']\<rparr>)
         var_names
   \<and> snd (step \<lparr>config_file = Some Map.empty,
                 process_env = [''DB_USERNAME'' \<mapsto> ''admin'', ''HOME'' \<mapsto> ''/root'']\<rparr>
            (Request GET_root ''t2''))
     = Some (Send (page (process_env \<lparr>config_file = None, process_env = [''DB_USERNAME'' \<mapsto> ''admin'']\<rparr>)))
   \<and> sublist ''admin''
        (page (process_env \<lparr>config_file = None, process_env = [''DB_USERNAME'' \<mapsto> ''admin'']\<rparr>))"
  using root_body_depends_on_seven
    [of "\<lparr>config_file = None, process_env = [''DB_USERNAME'' \<mapsto> ''admin'']\<rparr>"
        "\<lparr>config_file = Some Map.empty,
          process_env = [''DB_USERNAME'' \<mapsto> ''admin'', ''HOME'' \<mapsto> ''/root'']\<rparr>" "''t1''" "''t2''"]
  by (simp add: var_names_def plain_def dq_def bs_def)

end
